theory Spec2Isabelle
  imports Complex_Main "HOL-Library.AList" "HOL-Library.Sublist"
begin

section \<open>Strings and constants (content.js, lines 7-61)\<close>

text \<open>
  Strings are byte lists; text outside ASCII stands as its UTF-8 bytes. The string helpers
  of JavaScript that the program uses are written out for ASCII.
\<close>

definition includesStr :: "string \<Rightarrow> string \<Rightarrow> bool" where
  "includesStr s sub = sublist sub s"

definition startsWith :: "string \<Rightarrow> string \<Rightarrow> bool" where
  "startsWith s p = prefix p s"

definition isWhiteSpace :: "char \<Rightarrow> bool" where
  "isWhiteSpace c = (c = CHR '' '' \<or> c = CHR 0x09 \<or> c = CHR 0x0A \<or> c = CHR 0x0B
     \<or> c = CHR 0x0C \<or> c = CHR 0x0D)"

definition trim :: "string \<Rightarrow> string" where
  "trim s = rev (dropWhile isWhiteSpace (rev (dropWhile isWhiteSpace s)))"

definition isDigit :: "char \<Rightarrow> bool" where
  "isDigit c = (CHR ''0'' = c \<or> c = CHR ''1'' \<or> c = CHR ''2'' \<or> c = CHR ''3'' \<or> c = CHR ''4''
     \<or> c = CHR ''5'' \<or> c = CHR ''6'' \<or> c = CHR ''7'' \<or> c = CHR ''8'' \<or> c = CHR ''9'')"

definition toLowerCase :: "string \<Rightarrow> string" where
  "toLowerCase s =
     map (\<lambda>c. if 65 \<le> (of_char c :: nat) \<and> (of_char c :: nat) \<le> 90
              then char_of ((of_char c :: nat) + 32) else c) s"

text \<open>A JavaScript value that is a string or \<^verbatim>\<open>null\<close>: falsy when null or empty.\<close>

definition truthy :: "string option \<Rightarrow> bool" where
  "truthy v = (case v of None \<Rightarrow> False | Some s \<Rightarrow> s \<noteq> [])"

definition MESSAGE_ID_PREFIX :: string where
  "MESSAGE_ID_PREFIX = ''chat-messages-''"

definition maxScrollAttempts :: nat where
  "maxScrollAttempts = 500"

definition maxNoChangeAttempts :: nat where
  "maxNoChangeAttempts = 8"

definition avatarSize :: string where
  "avatarSize = ''128''"

record export_options =
  includeImages :: bool
  includeAvatars :: bool
  includeTimestamps :: bool
  includeReactions :: bool

definition DEFAULT_EXPORT_OPTIONS :: export_options where
  "DEFAULT_EXPORT_OPTIONS =
     \<lparr>includeImages = True, includeAvatars = True, includeTimestamps = True, includeReactions = True\<rparr>"

text \<open>The options a caller passes: every key may be missing.\<close>

record partial_options =
  po_includeImages :: "bool option"
  po_includeAvatars :: "bool option"
  po_includeTimestamps :: "bool option"
  po_includeReactions :: "bool option"

definition mergeOptions :: "export_options \<Rightarrow> partial_options \<Rightarrow> export_options" where
  "mergeOptions d p =
     \<lparr>includeImages = (case po_includeImages p of Some b \<Rightarrow> b | None \<Rightarrow> includeImages d),
      includeAvatars = (case po_includeAvatars p of Some b \<Rightarrow> b | None \<Rightarrow> includeAvatars d),
      includeTimestamps = (case po_includeTimestamps p of Some b \<Rightarrow> b | None \<Rightarrow> includeTimestamps d),
      includeReactions = (case po_includeReactions p of Some b \<Rightarrow> b | None \<Rightarrow> includeReactions d)\<rparr>"

section \<open>User cache (content.js, lines 65-91)\<close>

record user_cache =
  avatars :: "string \<rightharpoonup> string"
  colors :: "string \<rightharpoonup> string"
  lastUsername :: string

definition userCache_reset :: user_cache where
  "userCache_reset = \<lparr>avatars = Map.empty, colors = Map.empty, lastUsername = []\<rparr>"

definition setAvatar :: "string \<Rightarrow> string \<Rightarrow> user_cache \<Rightarrow> user_cache" where
  "setAvatar username url uc =
     (if username \<noteq> [] then uc\<lparr>avatars := (avatars uc)(username \<mapsto> url)\<rparr> else uc)"

definition getAvatar :: "user_cache \<Rightarrow> string \<Rightarrow> string option" where
  "getAvatar uc username =
     (case avatars uc username of
        Some url \<Rightarrow> if url \<noteq> [] then Some url else None
      | None \<Rightarrow> None)"

definition setColor :: "string \<Rightarrow> string \<Rightarrow> user_cache \<Rightarrow> user_cache" where
  "setColor username color uc =
     (if username \<noteq> [] \<and> color \<noteq> [] then uc\<lparr>colors := (colors uc)(username \<mapsto> color)\<rparr> else uc)"

definition getColor :: "user_cache \<Rightarrow> string \<Rightarrow> string option" where
  "getColor uc username =
     (case colors uc username of
        Some color \<Rightarrow> if color \<noteq> [] then Some color else None
      | None \<Rightarrow> None)"

section \<open>Image cache (content.js, lines 93-130)\<close>

text \<open>
  A JavaScript \<^verbatim>\<open>Map\<close> iterates in insertion order, and \<^verbatim>\<open>set\<close> on a key that is
  already present keeps the key's position. It is modelled as an association list in
  insertion order: \<^const>\<open>AList.update\<close> is \<^verbatim>\<open>Map.prototype.set\<close>,
  \<^const>\<open>AList.delete\<close> is \<^verbatim>\<open>Map.prototype.delete\<close>, \<^const>\<open>map_of\<close> is \<^verbatim>\<open>get\<close>.
  A thrown value is a \<open>js_error\<close> carrying its message.
\<close>

datatype js_error = Error string

fun message :: "js_error \<Rightarrow> string" where
  "message (Error m) = m"

type_synonym ('k, 'v) js_map = "('k \<times> 'v) list"

definition map_has :: "('k, 'v) js_map \<Rightarrow> 'k \<Rightarrow> bool" where
  "map_has m k = (map_of m k \<noteq> None)"

type_synonym image_cache = "(string, string) js_map"

definition MAX_IMAGE_CACHE_SIZE :: nat where
  "MAX_IMAGE_CACHE_SIZE = 200"

definition clearImageCache :: "image_cache \<Rightarrow> image_cache" where
  "clearImageCache cache = []"

text \<open>
  Lines 118-124, the synchronous tail of \<^verbatim>\<open>getCachedImage\<close> that runs once the fetch and the
  decoding have succeeded: when the cache is full the first key of the iteration order is
  deleted, then the new entry is set.
\<close>

definition storeImage :: "string \<Rightarrow> string \<Rightarrow> image_cache \<Rightarrow> image_cache" where
  "storeImage url base64 cache =
     (let cache1 =
        (if length cache \<ge> MAX_IMAGE_CACHE_SIZE
         then (case cache of [] \<Rightarrow> cache | (firstKey, _) # _ \<Rightarrow> AList.delete firstKey cache)
         else cache)
      in AList.update url base64 cache1)"

text \<open>
  The body of the \<^verbatim>\<open>try\<close> block (lines 109-125). The network is a parameter: for a URL it
  either rejects (fetch, blob or FileReader failure, \<open>Inl\<close>) or yields the data URL
  (\<open>Inr\<close>).
\<close>

definition getCachedImage_try ::
  "(string \<Rightarrow> js_error + string) \<Rightarrow> string \<Rightarrow> image_cache \<Rightarrow> js_error + (string \<times> image_cache)" where
  "getCachedImage_try net url cache =
     (case net url of
        Inl err \<Rightarrow> Inl err
      | Inr base64 \<Rightarrow> Inr (base64, storeImage url base64 cache))"

text \<open>
  \<^verbatim>\<open>getCachedImage(url)\<close>: the argument is \<open>None\<close> for \<^verbatim>\<open>null\<close>/\<^verbatim>\<open>undefined\<close>; the empty
  string is falsy as well. The result is the returned value (\<open>None\<close> for \<^verbatim>\<open>null\<close>) and the
  cache after the call. The \<^verbatim>\<open>catch\<close> clause turns every rejection into \<^verbatim>\<open>null\<close>.
\<close>

definition getCachedImage ::
  "(string \<Rightarrow> js_error + string) \<Rightarrow> string option \<Rightarrow> image_cache \<Rightarrow> string option \<times> image_cache" where
  "getCachedImage net url cache =
     (case url of
        None \<Rightarrow> (None, cache)
      | Some u \<Rightarrow>
          if u = [] then (None, cache)
          else if map_has cache u then (map_of cache u, cache)
          else (case getCachedImage_try net u cache of
                  Inl error \<Rightarrow> (None, cache)
                | Inr (base64, cache') \<Rightarrow> (Some base64, cache')))"

text \<open>A sequence of resolve operations, each with the network as it answers at that time.\<close>

fun resolveAll ::
  "((string \<Rightarrow> js_error + string) \<times> string option) list \<Rightarrow> image_cache \<Rightarrow> image_cache" where
  "resolveAll [] cache = cache"
| "resolveAll ((net, url) # ops) cache = resolveAll ops (snd (getCachedImage net url cache))"

section \<open>The page as the extractor sees it\<close>

text \<open>
  The extractor reads the live document through selector queries on one message element.
  An element is modelled by the answers to those queries: each field below is the result
  of the query named in its comment, in document order where it is a list. Three helpers
  of content.js parse HTML or URLs through browser objects and are not modelled; they are
  parameters, so every result below holds whatever they compute.
\<close>

record username_node =
  un_textContent :: string          \<comment> \<open>\<^verbatim>\<open>el.textContent\<close>\<close>
  un_color :: string                \<comment> \<open>\<^verbatim>\<open>window.getComputedStyle(el).color\<close>\<close>
  un_inRepliedMessage :: bool       \<comment> \<open>\<^verbatim>\<open>el.closest('[class*="repliedMessage"]')\<close>\<close>
  un_inReplyBar :: bool             \<comment> \<open>\<^verbatim>\<open>el.closest('[class*="replyBar"]')\<close>\<close>

record img_node =
  img_src :: string                 \<comment> \<open>\<^verbatim>\<open>img.src\<close>, empty when there is none\<close>
  img_className :: string
  img_ariaLabel :: string
  img_dataType :: string
  img_width :: nat
  img_height :: nat
  img_inRepliedMessage :: bool
  img_inReplyBar :: bool
  img_inAvatarDecoration :: bool    \<comment> \<open>\<^verbatim>\<open>img.closest('[class*="avatarDecoration"]') !== null\<close>\<close>
  img_inDecoration :: bool          \<comment> \<open>\<^verbatim>\<open>img.closest('[class*="decoration"]') !== null\<close>\<close>

record wrapper_node =
  wr_className :: string
  wr_inRepliedMessage :: bool
  wr_inReplyBar :: bool
  wr_img :: "img_node option"       \<comment> \<open>\<^verbatim>\<open>wrapper.querySelector('img')\<close>\<close>

record message_view =
  mv_headerUsername :: "username_node option"
    \<comment> \<open>the header outside a replied message, then its \<^verbatim>\<open>[class*="username"]\<close>\<close>
  mv_usernameEls :: "username_node list"            \<comment> \<open>\<^verbatim>\<open>querySelectorAll('[class*="username"]')\<close>\<close>
  mv_headerTextUsernameEls :: "username_node list"  \<comment> \<open>\<^verbatim>\<open>[class*="headerText"] [class*="username"]\<close>\<close>
  mv_avatarEls :: "img_node list"                   \<comment> \<open>\<^verbatim>\<open>querySelectorAll(SELECTORS.messageAvatar)\<close>\<close>
  mv_avatarWrappers :: "wrapper_node list"          \<comment> \<open>\<^verbatim>\<open>querySelectorAll('[class*="avatar"]')\<close>\<close>

record sibling =
  sib_matchesMessage :: bool        \<comment> \<open>\<^verbatim>\<open>prevEl.matches && prevEl.matches(SELECTORS.message)\<close>\<close>
  sib_view :: message_view

record replied_node =
  rp_usernameEl :: "string option"  \<comment> \<open>text of \<^verbatim>\<open>[class*="username"]\<close> inside the replied message\<close>
  rp_contentEl :: "string option"   \<comment> \<open>text of \<^verbatim>\<open>[class*="repliedTextContent"]\<close>\<close>

record time_node =
  tm_datetime :: string             \<comment> \<open>\<^verbatim>\<open>getAttribute('datetime')\<close>, empty when missing\<close>
  tm_textContent :: string

record content_node =
  cn_inRepliedMessage :: bool
  cn_inRepliedTextContent :: bool
  cn_inReplyBar :: bool
  cn_innerHTML :: string
  cn_textContent :: string

record field_node =
  fn_nameEl :: "string option"      \<comment> \<open>text of the field's name element\<close>
  fn_valueEl :: "string option"     \<comment> \<open>inner HTML of the field's value element\<close>

record embed_node =
  en_borderLeftColor :: string
  en_borderColor :: string
  en_authorEl :: "string option"
  en_titleEl :: "string option"
  en_descEl :: "string option"      \<comment> \<open>inner HTML of the description\<close>
  en_fieldEls :: "field_node list"
  en_footerEl :: "string option"
  en_thumbEl :: "img_node option"
  en_imgEl :: "img_node option"

record emoji_img =
  ei_src :: string
  ei_alt :: string
  ei_clonedOuterHTML :: string      \<comment> \<open>\<^verbatim>\<open>outerHTML\<close> of the restyled clone\<close>

record reaction_node =
  rn_nested :: bool
    \<comment> \<open>\<^verbatim>\<open>reaction.closest(r) !== reaction && reaction.parentElement?.closest(r)\<close>\<close>
  rn_emojiImg :: "emoji_img option"
  rn_textContent :: string
  rn_countEl :: "string option"     \<comment> \<open>text of \<^verbatim>\<open>[class*="reactionCount"]\<close>\<close>

record element =
  el_id :: string
  el_view :: message_view
  el_prevSiblings :: "sibling list" \<comment> \<open>the \<^verbatim>\<open>previousElementSibling\<close> chain, nearest first\<close>
  el_imgs :: "img_node list"        \<comment> \<open>\<^verbatim>\<open>querySelectorAll('img')\<close>\<close>
  el_repliedMessage :: "replied_node option"
  el_timeEl :: "time_node option"
  el_contentEls :: "content_node list"
  el_imageEls :: "img_node list"    \<comment> \<open>\<^verbatim>\<open>querySelectorAll(SELECTORS.messageImages)\<close>\<close>
  el_embedWrappers :: "embed_node list"
  el_reactionsEl :: "reaction_node list option"

record helpers =
  processContentForEmoji :: "string \<Rightarrow> string"
  getFullResolutionImageUrl :: "img_node \<Rightarrow> string option"
  getStaticImageUrl :: "string \<Rightarrow> string"

section \<open>Message records (content.js, lines 728-741)\<close>

record reply_ref =
  rr_username :: string
  rr_content :: string

record image_ref =
  ir_url :: string
  ir_isGif :: bool
  ir_staticUrl :: string

record embed_field =
  ef_name :: string
  ef_value :: string

record embed =
  emb_title :: string
  emb_description :: string
  emb_author :: string
  emb_fields :: "embed_field list"
  emb_footer :: string
  emb_thumbnail :: "string option"
  emb_image :: "string option"
  emb_color :: string

record reaction =
  re_emoji :: string
  re_count :: string

record message_data =
  msg_id :: "string option"
  msg_username :: string
  msg_usernameColor :: string
  msg_avatar :: string
  msg_timestamp :: string
  msg_content :: string
  msg_contentText :: string
  msg_images :: "image_ref list"
  msg_attachments :: "string list"
  msg_reactions :: "reaction list"
  msg_embeds :: "embed list"
  msg_replyTo :: "reply_ref option"

section \<open>DOM and image utilities (content.js, lines 147-303)\<close>

definition getMessageId :: "element option \<Rightarrow> string option" where
  "getMessageId messageEl =
     (case messageEl of
        None \<Rightarrow> None
      | Some el \<Rightarrow>
          if el_id el \<noteq> [] \<and> startsWith (el_id el) MESSAGE_ID_PREFIX then Some (el_id el) else None)"

definition isEmojiImage :: "img_node \<Rightarrow> bool" where
  "isEmojiImage img =
     (includesStr (img_src img) ''cdn.discordapp.com/emojis''
      \<or> includesStr (img_src img) ''discord.com/assets''
      \<or> includesStr (img_src img) ''twemoji''
      \<or> includesStr (img_className img) ''emoji''
      \<or> img_dataType img = ''emoji''
      \<or> startsWith (img_ariaLabel img) '':''
      \<or> (img_width img \<noteq> 0 \<and> img_width img \<le> 48 \<and> img_height img \<noteq> 0 \<and> img_height img \<le> 48))"

definition isAvatarImage :: "img_node \<Rightarrow> bool" where
  "isAvatarImage img =
     (includesStr (img_src img) ''/avatars/'' \<or> includesStr (img_className img) ''avatar'')"

definition isAvatarDecoration :: "img_node \<Rightarrow> bool" where
  "isAvatarDecoration img =
     (includesStr (img_src img) ''avatar-decoration''
      \<or> includesStr (img_src img) ''avatar_decoration''
      \<or> includesStr (img_src img) ''/avatar-decorations/''
      \<or> includesStr (img_src img) ''/avatar-decoration-presets/''
      \<or> includesStr (img_className img) ''avatarDecoration''
      \<or> includesStr (img_className img) ''avatar-decoration''
      \<or> includesStr (img_className img) ''decoration''
      \<or> img_inAvatarDecoration img
      \<or> img_inDecoration img)"

definition isGifUrl :: "string \<Rightarrow> bool" where
  "isGifUrl url =
     (if url = [] then False
      else includesStr (toLowerCase url) ''.gif'' \<or> includesStr (toLowerCase url) ''format=gif'')"

section \<open>Message extraction (content.js, lines 431-822)\<close>

definition usernameCandidate :: "username_node \<Rightarrow> bool" where
  "usernameCandidate el =
     (\<not> un_inRepliedMessage el \<and> \<not> un_inReplyBar el \<and> trim (un_textContent el) \<noteq> [])"

definition findUsernameElement :: "message_view \<Rightarrow> username_node option" where
  "findUsernameElement messageEl =
     (case (case mv_headerUsername messageEl of
              Some el \<Rightarrow> if trim (un_textContent el) \<noteq> [] then Some el else None
            | None \<Rightarrow> None) of
        Some el \<Rightarrow> Some el
      | None \<Rightarrow>
          (case find usernameCandidate (mv_usernameEls messageEl) of
             Some el \<Rightarrow> Some el
           | None \<Rightarrow>
               (case find (\<lambda>el. \<not> un_inRepliedMessage el \<and> trim (un_textContent el) \<noteq> [])
                       (mv_headerTextUsernameEls messageEl) of
                  Some el \<Rightarrow> Some el
                | None \<Rightarrow> find usernameCandidate (mv_usernameEls messageEl))))"

text \<open>
  The size rewrite of an avatar URL (lines 512-516, repeated at 538-542 and 559-563):
  the first \<^verbatim>\<open>?size=\<close> followed by digits is replaced, or the parameter is appended when
  the URL has no query.
\<close>

fun replaceSize :: "string \<Rightarrow> string" where
  "replaceSize [] = []"
| "replaceSize (c # cs) =
     (if prefix ''?size='' (c # cs) \<and> drop 6 (c # cs) \<noteq> [] \<and> isDigit (hd (drop 6 (c # cs)))
      then ''?size='' @ avatarSize @ dropWhile isDigit (drop 6 (c # cs))
      else c # replaceSize cs)"

definition normalizeAvatarUrl :: "string \<Rightarrow> string" where
  "normalizeAvatarUrl url =
     (if includesStr url ''?size='' then replaceSize url
      else if \<not> includesStr url ''?'' then url @ ''?size='' @ avatarSize
      else url)"

definition avatarCandidate :: "img_node \<Rightarrow> bool" where
  "avatarCandidate el =
     (\<not> img_inRepliedMessage el \<and> \<not> img_inReplyBar el \<and> \<not> isAvatarDecoration el)"

definition decorationWrapper :: "wrapper_node \<Rightarrow> bool" where
  "decorationWrapper wrapper =
     (wr_className wrapper \<noteq> []
      \<and> (includesStr (wr_className wrapper) ''decoration''
           \<or> includesStr (wr_className wrapper) ''Decoration''))"

text \<open>The wrapper loop of lines 480-490: the image of the first wrapper that passes.\<close>

fun findWrapperAvatar :: "bool \<Rightarrow> wrapper_node list \<Rightarrow> img_node option" where
  "findWrapperAvatar needSrc [] = None"
| "findWrapperAvatar needSrc (wrapper # others) =
     (if decorationWrapper wrapper then findWrapperAvatar needSrc others
      else if \<not> wr_inRepliedMessage wrapper \<and> \<not> wr_inReplyBar wrapper then
        (case wr_img wrapper of
           Some img \<Rightarrow>
             if (needSrc \<longrightarrow> img_src img \<noteq> []) \<and> \<not> isAvatarDecoration img then Some img
             else findWrapperAvatar needSrc others
         | None \<Rightarrow> findWrapperAvatar needSrc others)
      else findWrapperAvatar needSrc others)"

text \<open>Lines 467-508: the avatar image of the element itself, by three lookups.\<close>

definition findAvatarElement :: "element \<Rightarrow> img_node option" where
  "findAvatarElement messageEl =
     (case find avatarCandidate (mv_avatarEls (el_view messageEl)) of
        Some el \<Rightarrow> Some el
      | None \<Rightarrow>
          (case findWrapperAvatar False (mv_avatarWrappers (el_view messageEl)) of
             Some img \<Rightarrow> Some img
           | None \<Rightarrow>
               find (\<lambda>img. \<not> (img_inRepliedMessage img \<or> img_inReplyBar img)
                         \<and> \<not> isAvatarDecoration img
                         \<and> (includesStr (img_src img) ''cdn.discordapp.com/avatars''
                              \<or> includesStr (img_src img) ''discord.com/avatars''
                              \<or> includesStr (img_src img) ''/avatars/''
                              \<or> includesStr (img_className img) ''avatar''))
                 (el_imgs messageEl)))"

text \<open>Lines 531-570: the avatar one previous sibling offers.\<close>

definition siblingAvatar :: "sibling \<Rightarrow> string option" where
  "siblingAvatar prevEl =
     (if sib_matchesMessage prevEl then
        (case find (\<lambda>el. avatarCandidate el \<and> img_src el \<noteq> []) (mv_avatarEls (sib_view prevEl)) of
           Some el \<Rightarrow> Some (normalizeAvatarUrl (img_src el))
         | None \<Rightarrow>
             (case findWrapperAvatar True (mv_avatarWrappers (sib_view prevEl)) of
                Some img \<Rightarrow> Some (normalizeAvatarUrl (img_src img))
              | None \<Rightarrow> None))
      else None)"

text \<open>The loop of lines 528-574 over the previous siblings, at most 20 of them.\<close>

fun scanPrevAvatars :: "nat \<Rightarrow> sibling list \<Rightarrow> string option" where
  "scanPrevAvatars attempts [] = None"
| "scanPrevAvatars attempts (prevEl # others) =
     (if attempts < 20 then
        (case siblingAvatar prevEl of
           Some url \<Rightarrow> Some url
         | None \<Rightarrow> scanPrevAvatars (attempts + 1) others)
      else None)"

definition extractAvatar :: "element \<Rightarrow> message_data \<Rightarrow> user_cache \<Rightarrow> message_data \<times> user_cache" where
  "extractAvatar messageEl data uc =
     (case (case findAvatarElement messageEl of
              Some avatarEl \<Rightarrow> if img_src avatarEl \<noteq> [] then Some avatarEl else None
            | None \<Rightarrow> None) of
        Some avatarEl \<Rightarrow>
          (let foundAvatarUrl = normalizeAvatarUrl (img_src avatarEl)
           in (data\<lparr>msg_avatar := foundAvatarUrl\<rparr>,
               if msg_username data \<noteq> [] then setAvatar (msg_username data) foundAvatarUrl uc else uc))
      | None \<Rightarrow>
          if msg_username data \<noteq> [] then
            (case getAvatar uc (msg_username data) of
               Some cachedAvatar \<Rightarrow> (data\<lparr>msg_avatar := cachedAvatar\<rparr>, uc)
             | None \<Rightarrow>
                 (case scanPrevAvatars 0 (el_prevSiblings messageEl) of
                    Some cachedAvatar \<Rightarrow>
                      (data\<lparr>msg_avatar := cachedAvatar\<rparr>, setAvatar (msg_username data) cachedAvatar uc)
                  | None \<Rightarrow> (data\<lparr>msg_avatar := []\<rparr>, uc)))
          else (data, uc))"

definition findContentElement :: "element \<Rightarrow> content_node option" where
  "findContentElement messageEl =
     find (\<lambda>el. \<not> cn_inRepliedMessage el \<and> \<not> cn_inRepliedTextContent el \<and> \<not> cn_inReplyBar el)
       (el_contentEls messageEl)"

definition extractContent :: "helpers \<Rightarrow> element \<Rightarrow> message_data \<Rightarrow> message_data" where
  "extractContent H messageEl data =
     (case findContentElement messageEl of
        Some contentEl \<Rightarrow>
          data\<lparr>msg_content := processContentForEmoji H (cn_innerHTML contentEl),
               msg_contentText := trim (cn_textContent contentEl)\<rparr>
      | None \<Rightarrow> data)"

definition imageRefOf :: "helpers \<Rightarrow> img_node \<Rightarrow> image_ref option" where
  "imageRefOf H img =
     (case getFullResolutionImageUrl H img of
        None \<Rightarrow> None
      | Some src \<Rightarrow>
          if src \<noteq> [] \<and> \<not> isAvatarImage img \<and> \<not> isEmojiImage img then
            Some \<lparr>ir_url = src, ir_isGif = isGifUrl src,
                  ir_staticUrl = (if isGifUrl src then getStaticImageUrl H src else src)\<rparr>
          else None)"

definition extractImages :: "helpers \<Rightarrow> element \<Rightarrow> message_data \<Rightarrow> message_data" where
  "extractImages H messageEl data =
     data\<lparr>msg_images := msg_images data @ List.map_filter (imageRefOf H) (el_imageEls messageEl)\<rparr>"

definition textOf :: "string option \<Rightarrow> string" where
  "textOf el = (case el of Some t \<Rightarrow> trim t | None \<Rightarrow> [])"

definition embedFieldOf :: "helpers \<Rightarrow> field_node \<Rightarrow> embed_field option" where
  "embedFieldOf H fieldEl =
     (if fn_nameEl fieldEl \<noteq> None \<or> fn_valueEl fieldEl \<noteq> None then
        Some \<lparr>ef_name = textOf (fn_nameEl fieldEl),
              ef_value = (case fn_valueEl fieldEl of
                            Some html \<Rightarrow> processContentForEmoji H html | None \<Rightarrow> [])\<rparr>
      else None)"

text \<open>
  Lines 617-664: the embed record as filled in before the emptiness test. A field that
  the source leaves at its initial \<^verbatim>\<open>''\<close> is the empty string; thumbnail and image hold
  what \<^verbatim>\<open>getFullResolutionImageUrl\<close> returned, which may be \<^verbatim>\<open>null\<close>.
\<close>

definition buildEmbed :: "helpers \<Rightarrow> embed_node \<Rightarrow> export_options \<Rightarrow> embed" where
  "buildEmbed H embedEl options =
     (let borderColor = (if en_borderLeftColor embedEl \<noteq> [] then en_borderLeftColor embedEl
                         else en_borderColor embedEl)
      in \<lparr>emb_title = textOf (en_titleEl embedEl),
          emb_description = (case en_descEl embedEl of
                               Some html \<Rightarrow> processContentForEmoji H html | None \<Rightarrow> []),
          emb_author = textOf (en_authorEl embedEl),
          emb_fields = List.map_filter (embedFieldOf H) (en_fieldEls embedEl),
          emb_footer = textOf (en_footerEl embedEl),
          emb_thumbnail = (if includeImages options then
                             (case en_thumbEl embedEl of
                                Some thumbEl \<Rightarrow> getFullResolutionImageUrl H thumbEl
                              | None \<Rightarrow> Some [])
                           else Some []),
          emb_image = (if includeImages options then
                         (case en_imgEl embedEl of
                            Some imgEl \<Rightarrow> getFullResolutionImageUrl H imgEl
                          | None \<Rightarrow> Some [])
                       else Some []),
          emb_color = (if borderColor \<noteq> [] \<and> borderColor \<noteq> ''rgba(0, 0, 0, 0)''
                       then borderColor else [])\<rparr>)"

definition extractEmbedData :: "helpers \<Rightarrow> embed_node option \<Rightarrow> export_options \<Rightarrow> embed option" where
  "extractEmbedData H embedEl options =
     (case embedEl of
        None \<Rightarrow> None
      | Some el \<Rightarrow>
          (let embed = buildEmbed H el options
           in if emb_title embed = [] \<and> emb_description embed = [] \<and> emb_fields embed = []
                 \<and> \<not> truthy (emb_image embed)
              then None else Some embed))"

definition extractEmbeds :: "helpers \<Rightarrow> element \<Rightarrow> message_data \<Rightarrow> export_options \<Rightarrow> message_data" where
  "extractEmbeds H messageEl data options =
     data\<lparr>msg_embeds := msg_embeds data
        @ List.map_filter (\<lambda>embedEl. extractEmbedData H (Some embedEl) options)
            (el_embedWrappers messageEl)\<rparr>"

definition stripTrailingDigits :: "string \<Rightarrow> string" where
  "stripTrailingDigits s = rev (dropWhile isDigit (rev s))"

text \<open>
  Lines 688-722, one reaction item: the set of processed keys and the reactions pushed so
  far go in and come out.
\<close>

definition extractReaction ::
  "reaction_node \<Rightarrow> string list \<times> reaction list \<Rightarrow> string list \<times> reaction list" where
  "extractReaction reactionEl acc =
     (if rn_nested reactionEl then acc
      else
        (let (emoji, emojiKey) =
               (case rn_emojiImg reactionEl of
                  Some emojiImg \<Rightarrow>
                    (ei_clonedOuterHTML emojiImg,
                     if ei_src emojiImg \<noteq> [] then ei_src emojiImg else ei_alt emojiImg)
                | None \<Rightarrow>
                    (trim (stripTrailingDigits (trim (rn_textContent reactionEl))),
                     trim (stripTrailingDigits (trim (rn_textContent reactionEl)))));
             count = (if textOf (rn_countEl reactionEl) \<noteq> [] then textOf (rn_countEl reactionEl)
                      else ''1'');
             reactionKey = emojiKey @ ''-'' @ count
         in if emoji \<noteq> [] \<and> reactionKey \<notin> set (fst acc)
            then (fst acc @ [reactionKey], snd acc @ [\<lparr>re_emoji = emoji, re_count = count\<rparr>])
            else acc))"

definition extractReactions :: "element \<Rightarrow> message_data \<Rightarrow> message_data" where
  "extractReactions messageEl data =
     (case el_reactionsEl messageEl of
        None \<Rightarrow> data
      | Some reactionItems \<Rightarrow>
          data\<lparr>msg_reactions := snd (foldl (\<lambda>acc r. extractReaction r acc) ([], msg_reactions data) reactionItems)\<rparr>)"

definition usableColor :: "string \<Rightarrow> bool" where
  "usableColor color =
     (color \<noteq> [] \<and> color \<noteq> ''rgb(255, 255, 255)'' \<and> color \<noteq> ''rgba(0, 0, 0, 0)'')"

text \<open>The loop of lines 763-780 over the previous siblings, at most 10 of them.\<close>

fun scanPrevUsernames :: "nat \<Rightarrow> sibling list \<Rightarrow> username_node option" where
  "scanPrevUsernames attempts [] = None"
| "scanPrevUsernames attempts (prevEl # others) =
     (if attempts < 10 then
        (case (if sib_matchesMessage prevEl then findUsernameElement (sib_view prevEl) else None) of
           Some prevUsernameEl \<Rightarrow> Some prevUsernameEl
         | None \<Rightarrow> scanPrevUsernames (attempts + 1) others)
      else None)"

text \<open>
  Lines 744-782: the author of the element, as the pair of \<^verbatim>\<open>data.username\<close> and
  \<^verbatim>\<open>data.usernameColor\<close>: from the element's own header, else the last author of the
  cache, else the nearest previous sibling that shows one.
\<close>

definition resolveAuthor :: "element \<Rightarrow> user_cache \<Rightarrow> string \<times> string" where
  "resolveAuthor messageEl uc =
     (case findUsernameElement (el_view messageEl) of
        Some usernameEl \<Rightarrow>
          (trim (un_textContent usernameEl),
           if usableColor (un_color usernameEl) then un_color usernameEl else [])
      | None \<Rightarrow>
          if lastUsername uc \<noteq> [] then
            (lastUsername uc,
             case getColor uc (lastUsername uc) of Some c \<Rightarrow> c | None \<Rightarrow> [])
          else
            (case scanPrevUsernames 0 (el_prevSiblings messageEl) of
               Some prevUsernameEl \<Rightarrow>
                 (trim (un_textContent prevUsernameEl),
                  if usableColor (un_color prevUsernameEl) then un_color prevUsernameEl else [])
             | None \<Rightarrow> ([], [])))"

text \<open>Lines 785-792: the cache learns the author and supplies a missing colour.\<close>

definition rememberAuthor :: "message_data \<Rightarrow> user_cache \<Rightarrow> message_data \<times> user_cache" where
  "rememberAuthor data uc =
     (if msg_username data \<noteq> [] then
        (let uc1 = uc\<lparr>lastUsername := msg_username data\<rparr>
         in if msg_usernameColor data \<noteq> []
            then (data, setColor (msg_username data) (msg_usernameColor data) uc1)
            else (data\<lparr>msg_usernameColor :=
                         (case getColor uc1 (msg_username data) of Some c \<Rightarrow> c | None \<Rightarrow> [])\<rparr>,
                  uc1))
      else (data, uc))"

definition emptyMessage :: "element \<Rightarrow> message_data" where
  "emptyMessage messageEl =
     \<lparr>msg_id = getMessageId (Some messageEl), msg_username = [], msg_usernameColor = [],
      msg_avatar = [], msg_timestamp = [], msg_content = [], msg_contentText = [],
      msg_images = [], msg_attachments = [], msg_reactions = [], msg_embeds = [],
      msg_replyTo = None\<rparr>"

text \<open>Lines 743-815: the record as filled in before the drop rule is applied.\<close>

definition buildMessageData ::
  "helpers \<Rightarrow> element \<Rightarrow> export_options \<Rightarrow> user_cache \<Rightarrow> message_data \<times> user_cache" where
  "buildMessageData H messageEl options uc =
     (let data0 = emptyMessage messageEl;
          data1 = data0\<lparr>msg_username := fst (resolveAuthor messageEl uc),
                        msg_usernameColor := snd (resolveAuthor messageEl uc)\<rparr>;
          (data2, uc2) = rememberAuthor data1 uc;
          data3 = (case el_repliedMessage messageEl of
                     Some repliedMessageEl \<Rightarrow>
                       data2\<lparr>msg_replyTo :=
                                Some \<lparr>rr_username = textOf (rp_usernameEl repliedMessageEl),
                                      rr_content = textOf (rp_contentEl repliedMessageEl)\<rparr>\<rparr>
                   | None \<Rightarrow> data2);
          (data4, uc4) = (if includeAvatars options then extractAvatar messageEl data3 uc2
                          else (data3, uc2));
          data5 = (if includeTimestamps options then
                     (case el_timeEl messageEl of
                        Some timeEl \<Rightarrow>
                          data4\<lparr>msg_timestamp :=
                                   (if tm_datetime timeEl \<noteq> [] then tm_datetime timeEl
                                    else trim (tm_textContent timeEl))\<rparr>
                      | None \<Rightarrow> data4)
                   else data4);
          data6 = extractContent H messageEl data5;
          data7 = (if includeImages options then extractImages H messageEl data6 else data6);
          data8 = extractEmbeds H messageEl data7 options;
          data9 = (if includeReactions options then extractReactions messageEl data8 else data8)
      in (data9, uc4))"

definition dropRule :: "message_data \<Rightarrow> bool" where
  "dropRule data =
     (msg_content data = [] \<and> msg_images data = [] \<and> msg_embeds data = []
      \<and> msg_username data = [])"

definition extractMessageData ::
  "helpers \<Rightarrow> element option \<Rightarrow> export_options \<Rightarrow> user_cache \<Rightarrow> message_data option \<times> user_cache" where
  "extractMessageData H messageEl options uc =
     (case messageEl of
        None \<Rightarrow> (None, uc)
      | Some el \<Rightarrow>
          (let (data, uc') = buildMessageData H el options uc
           in if dropRule data then (None, uc') else (Some data, uc')))"

section \<open>Collection loop (content.js, lines 824-1025)\<close>

text \<open>
  The page is outside the program: what the loop reads from it is an input. At each
  iteration it reads the message elements that are mounted and the scroller's geometry
  before and after its scroll step; a \<open>frame\<close> holds those readings. The geometry is in
  CSS pixels, taken as real numbers. The scroll request itself (line 964) only acts on
  the page, whose answer is the reading after the settle delay.

  The boundary ids come from \<^verbatim>\<open>getMessageId\<close>, so an element that carries one is a message
  element: \<^verbatim>\<open>document.getElementById\<close> of a boundary is the first element of the message
  array with that id. An element is named by its index in the array, and one element
  follows another in document order when its index is greater.
\<close>

type_synonym message_store = "(string, message_data) js_map"

record scroll_reading =
  scrollTop :: real
  clientHeight :: real
  scrollHeight :: real

record frame =
  fr_messageArray :: "element list"     \<comment> \<open>\<^verbatim>\<open>document.querySelectorAll(SELECTORS.message)\<close>, line 889\<close>
  fr_beforeScroll :: scroll_reading     \<comment> \<open>the scroller at lines 959-960\<close>
  fr_afterScroll :: scroll_reading      \<comment> \<open>the scroller at lines 969-977\<close>

record collect_state =
  collectedMessages :: message_store
  noChangeCount :: nat
  foundStartMessage :: bool
  foundEndMessage :: bool
  reachedBottom :: bool
  maxScrollTopReached :: real
  userCache :: user_cache
  progressLog :: "real list"            \<comment> \<open>the percents sent to the progress sink, oldest first\<close>

fun getElementById :: "element list \<Rightarrow> string \<Rightarrow> nat option" where
  "getElementById [] x = None"
| "getElementById (e # es) x =
     (if el_id e = x then Some 0 else map_option Suc (getElementById es x))"

definition boundaryElement :: "element list \<Rightarrow> string option \<Rightarrow> nat option" where
  "boundaryElement messageArray boundaryId =
     (case boundaryId of
        None \<Rightarrow> None
      | Some x \<Rightarrow> if x \<noteq> [] then getElementById messageArray x else None)"

text \<open>
  Lines 902-907, and again 927-932, 946-951 and 1015-1020: an id that the store does not
  hold yet is extracted, and stored when the extractor returns a record.
\<close>

definition collectMessage ::
  "helpers \<Rightarrow> export_options \<Rightarrow> element \<Rightarrow> string \<Rightarrow> collect_state \<Rightarrow> collect_state" where
  "collectMessage H options msgEl msgId st =
     (if \<not> map_has (collectedMessages st) msgId then
        (case extractMessageData H (Some msgEl) options (userCache st) of
           (Some messageData, uc) \<Rightarrow>
             st\<lparr>collectedMessages := AList.update msgId messageData (collectedMessages st),
                userCache := uc\<rparr>
         | (None, uc) \<Rightarrow> st\<lparr>userCache := uc\<rparr>)
      else st)"

text \<open>
  The \<^verbatim>\<open>for\<close> loop of lines 894-952 from the element with index \<open>i\<close> on. A \<^verbatim>\<open>break\<close> returns
  the state, a \<^verbatim>\<open>continue\<close> goes on with the rest.
\<close>

fun scanMessages ::
  "helpers \<Rightarrow> export_options \<Rightarrow> string option \<Rightarrow> string option \<Rightarrow> nat option \<Rightarrow> nat option
     \<Rightarrow> nat \<Rightarrow> element list \<Rightarrow> collect_state \<Rightarrow> collect_state" where
  "scanMessages H options startFromId endAtId startElement endElement i [] st = st"
| "scanMessages H options startFromId endAtId startElement endElement i (msgEl # rest) st =
     (case getMessageId (Some msgEl) of
        None \<Rightarrow> scanMessages H options startFromId endAtId startElement endElement (Suc i) rest st
      | Some msgId \<Rightarrow>
          if truthy endAtId \<and> Some msgId = endAtId then
            (collectMessage H options msgEl msgId (st\<lparr>foundEndMessage := True\<rparr>))
              \<lparr>reachedBottom := True\<rparr>
          else if (case endElement of Some j \<Rightarrow> j < i | None \<Rightarrow> False) then
            st\<lparr>foundEndMessage := True, reachedBottom := True\<rparr>
          else if truthy startFromId then
            (if Some msgId = startFromId then
               scanMessages H options startFromId endAtId startElement endElement (Suc i) rest
                 (collectMessage H options msgEl msgId (st\<lparr>foundStartMessage := True\<rparr>))
             else if (case startElement of Some j \<Rightarrow> \<not> j < i | None \<Rightarrow> \<not> foundStartMessage st) then
               scanMessages H options startFromId endAtId startElement endElement (Suc i) rest st
             else
               scanMessages H options startFromId endAtId startElement endElement (Suc i) rest
                 (collectMessage H options msgEl msgId st))
          else
            scanMessages H options startFromId endAtId startElement endElement (Suc i) rest
              (collectMessage H options msgEl msgId st))"

text \<open>Lines 889-952: one scan of the mounted elements.\<close>

definition scanFrame ::
  "helpers \<Rightarrow> export_options \<Rightarrow> string option \<Rightarrow> string option \<Rightarrow> frame \<Rightarrow> collect_state
     \<Rightarrow> collect_state" where
  "scanFrame H options startFromId endAtId fr st =
     scanMessages H options startFromId endAtId
       (boundaryElement (fr_messageArray fr) startFromId)
       (boundaryElement (fr_messageArray fr) endAtId)
       0 (fr_messageArray fr) st"

text \<open>The four tests of lines 969-972.\<close>

definition isAtBottom :: "scroll_reading \<Rightarrow> bool" where
  "isAtBottom scroller = (scrollTop scroller + clientHeight scroller \<ge> scrollHeight scroller - 50)"

definition scrollDidNotMove :: "scroll_reading \<Rightarrow> real \<Rightarrow> bool" where
  "scrollDidNotMove scroller prevScrollTop = (\<bar>scrollTop scroller - prevScrollTop\<bar> < 5)"

definition noNewMessages :: "message_store \<Rightarrow> nat \<Rightarrow> bool" where
  "noNewMessages collected prevMessageCount = (length collected = prevMessageCount)"

definition scrollHeightUnchanged :: "scroll_reading \<Rightarrow> real \<Rightarrow> bool" where
  "scrollHeightUnchanged scroller prevScrollHeight = (scrollHeight scroller = prevScrollHeight)"

text \<open>
  Lines 959-999: the scroll step and the stall counter. The first component says that the
  loop is left by \<^verbatim>\<open>break\<close>.
\<close>

definition afterScroll :: "frame \<Rightarrow> collect_state \<Rightarrow> bool \<times> collect_state" where
  "afterScroll fr st =
     (let prevScrollTop = scrollTop (fr_beforeScroll fr);
          prevScrollHeight = scrollHeight (fr_beforeScroll fr);
          prevMessageCount = length (collectedMessages st);
          scroller = fr_afterScroll fr;
          st1 = st\<lparr>maxScrollTopReached :=
                     (if scrollTop scroller > maxScrollTopReached st then scrollTop scroller
                      else maxScrollTopReached st)\<rparr>
      in if isAtBottom scroller \<and> scrollDidNotMove scroller prevScrollTop
            \<and> noNewMessages (collectedMessages st) prevMessageCount
            \<and> scrollHeightUnchanged scroller prevScrollHeight
         then
           (let st2 = st1\<lparr>noChangeCount := noChangeCount st1 + 1\<rparr>
            in if noChangeCount st2 \<ge> maxNoChangeAttempts
               then (True, st2\<lparr>reachedBottom := True\<rparr>) else (False, st2))
         else if scrollDidNotMove scroller prevScrollTop
                 \<and> noNewMessages (collectedMessages st) prevMessageCount
         then
           (let st2 = st1\<lparr>noChangeCount := noChangeCount st1 + 1\<rparr>
            in if noChangeCount st2 \<ge> maxNoChangeAttempts + 3
               then (True, st2\<lparr>reachedBottom := True\<rparr>) else (False, st2))
         else (False, st1\<lparr>noChangeCount := 0\<rparr>))"

definition collectionProgress :: "nat \<Rightarrow> real" where
  "collectionProgress scrollAttempts =
     min 55 (20 + (real scrollAttempts * 35 / real maxScrollAttempts))"

text \<open>
  The \<^verbatim>\<open>while\<close> loop of lines 886-1008. The frame of the iteration that raises the counter
  to \<open>n\<close> is \<open>frames n\<close>. The result is the final counter and state.
\<close>

function collectLoop ::
  "helpers \<Rightarrow> export_options \<Rightarrow> string option \<Rightarrow> string option \<Rightarrow> (nat \<Rightarrow> frame)
     \<Rightarrow> nat \<Rightarrow> collect_state \<Rightarrow> nat \<times> collect_state" where
  "collectLoop H options startFromId endAtId frames scrollAttempts st =
     (if scrollAttempts < maxScrollAttempts \<and> \<not> reachedBottom st then
        (let st1 = scanFrame H options startFromId endAtId (frames (Suc scrollAttempts)) st
         in if foundEndMessage st1 then (Suc scrollAttempts, st1)
            else if fst (afterScroll (frames (Suc scrollAttempts)) st1)
            then (Suc scrollAttempts, snd (afterScroll (frames (Suc scrollAttempts)) st1))
            else collectLoop H options startFromId endAtId frames (Suc scrollAttempts)
                   ((snd (afterScroll (frames (Suc scrollAttempts)) st1))
                      \<lparr>progressLog :=
                         progressLog (snd (afterScroll (frames (Suc scrollAttempts)) st1))
                           @ [collectionProgress (Suc scrollAttempts)]\<rparr>))
      else (scrollAttempts, st))"
  by pat_completeness auto
termination
  by (relation "measure (\<lambda>(H, options, startFromId, endAtId, frames, scrollAttempts, st).
        maxScrollAttempts - scrollAttempts)") auto

declare collectLoop.simps [simp del]

text \<open>Lines 1013-1021: the sweep over the mounted elements that ignores the boundary.\<close>

fun fallbackSweep ::
  "helpers \<Rightarrow> export_options \<Rightarrow> element list \<Rightarrow> collect_state \<Rightarrow> collect_state" where
  "fallbackSweep H options [] st = st"
| "fallbackSweep H options (msgEl # rest) st =
     (case getMessageId (Some msgEl) of
        Some msgId \<Rightarrow> fallbackSweep H options rest (collectMessage H options msgEl msgId st)
      | None \<Rightarrow> fallbackSweep H options rest st)"

text \<open>
  Lines 844-867, the scroll to the top: per attempt the page answers with the scroll
  position after the reset and after the second delay of the double check.
\<close>

record top_reading =
  tr_afterReset :: real
  tr_afterRecheck :: real

function scrollToTop :: "(nat \<Rightarrow> top_reading) \<Rightarrow> nat \<Rightarrow> real \<Rightarrow> real list \<Rightarrow> real list" where
  "scrollToTop readings scrollUpAttempts lastScrollTop sent =
     (if scrollUpAttempts < maxScrollAttempts then
        (if (tr_afterReset (readings scrollUpAttempts) = 0
               \<or> \<bar>tr_afterReset (readings scrollUpAttempts) - lastScrollTop\<bar> < 5)
            \<and> tr_afterRecheck (readings scrollUpAttempts) < 100
         then sent
         else scrollToTop readings (Suc scrollUpAttempts)
                (if tr_afterReset (readings scrollUpAttempts) = 0
                      \<or> \<bar>tr_afterReset (readings scrollUpAttempts) - lastScrollTop\<bar> < 5
                 then tr_afterRecheck (readings scrollUpAttempts)
                 else tr_afterReset (readings scrollUpAttempts))
                (sent @ [min 15 (5 + real (Suc scrollUpAttempts))]))
      else sent)"
  by pat_completeness auto
termination
  by (relation "measure (\<lambda>(readings, scrollUpAttempts, lastScrollTop, sent).
        maxScrollAttempts - scrollUpAttempts)") auto

declare scrollToTop.simps [simp del]

record environment =
  env_scroller :: bool                    \<comment> \<open>\<^verbatim>\<open>getMessagesScroller()\<close> found an element\<close>
  env_initialScrollTop :: real            \<comment> \<open>\<^verbatim>\<open>scroller.scrollTop\<close> at line 845\<close>
  env_topReadings :: "nat \<Rightarrow> top_reading"
  env_initialDocument :: "element list"   \<comment> \<open>the message elements when line 873 runs\<close>
  env_scrollTopAtStart :: real            \<comment> \<open>\<^verbatim>\<open>scroller.scrollTop\<close> at line 883\<close>
  env_frames :: "nat \<Rightarrow> frame"
  env_finalDocument :: "element list"     \<comment> \<open>the message elements when line 1012 runs\<close>
  env_network :: "string \<Rightarrow> js_error + string"
  env_windowOpen :: bool                  \<comment> \<open>\<^verbatim>\<open>window.open\<close> returned a window\<close>

text \<open>
  Lines 838-881: the state in which the main loop starts; \<open>sent\<close> holds the percents
  sent so far.
\<close>

definition seekStart :: "environment \<Rightarrow> string option \<Rightarrow> real list \<Rightarrow> collect_state" where
  "seekStart env startFromId sent =
     \<lparr>collectedMessages = [],
      noChangeCount = 0,
      foundStartMessage =
        (if \<not> truthy startFromId then True
         else boundaryElement (env_initialDocument env) startFromId \<noteq> None),
      foundEndMessage = False,
      reachedBottom = False,
      maxScrollTopReached = env_scrollTopAtStart env,
      userCache = userCache_reset,
      progressLog =
        (if \<not> truthy startFromId
         then scrollToTop (env_topReadings env) 0 (env_initialScrollTop env) (sent @ [5])
         else sent)\<rparr>"

text \<open>
  \<^verbatim>\<open>scrollAndCollectMessages\<close>: the final state of the run, or the thrown error when there
  is no scroller. The returned array is \<open>collectedValues\<close> of the final state.
\<close>

definition collectRun ::
  "helpers \<Rightarrow> environment \<Rightarrow> string option \<Rightarrow> string option \<Rightarrow> export_options \<Rightarrow> real list
     \<Rightarrow> collect_state" where
  "collectRun H env startFromId endAtId options sent =
     (let st1 = snd (collectLoop H options startFromId endAtId (env_frames env) 0
                       (seekStart env startFromId sent))
      in if truthy startFromId \<and> \<not> foundStartMessage st1
         then fallbackSweep H options (env_finalDocument env) st1
         else st1)"

definition collectedValues :: "collect_state \<Rightarrow> message_data list" where
  "collectedValues st = map snd (collectedMessages st)"

definition scrollAndCollectMessages ::
  "helpers \<Rightarrow> environment \<Rightarrow> string option \<Rightarrow> string option \<Rightarrow> export_options \<Rightarrow> real list
     \<Rightarrow> real list \<times> (js_error + message_data list)" where
  "scrollAndCollectMessages H env startFromId endAtId options sent =
     (if \<not> env_scroller env then (sent, Inl (Error ''Could not find messages scroller''))
      else
        (let st = collectRun H env startFromId endAtId options sent
         in (progressLog st, Inr (collectedValues st))))"

section \<open>Invariants of the message store\<close>



section \<open>The stall tests of one iteration\<close>



section \<open>Renderers (content.js, lines 1081-1319)\<close>

text \<open>
  What the renderers read from the page and the clock is a parameter: the channel name,
  the style sheet, the formatting of dates, and the text of an HTML fragment.
\<close>

record render_env =
  getChannelName :: string
  getPDFStyles :: string
  nowLocaleString :: string              \<comment> \<open>\<^verbatim>\<open>new Date().toLocaleString()\<close>\<close>
  toLocaleString :: "string \<Rightarrow> string"   \<comment> \<open>\<^verbatim>\<open>new Date(t).toLocaleString()\<close>\<close>
  textContentOf :: "string \<Rightarrow> string"    \<comment> \<open>the \<^verbatim>\<open>textContent\<close> of an element with that inner HTML\<close>

definition newline :: string where
  "newline = [CHR 0x0A]"

definition orUnknown :: "string \<Rightarrow> string" where
  "orUnknown s = (if s \<noteq> [] then s else ''Unknown'')"

fun joinWith :: "string \<Rightarrow> string list \<Rightarrow> string" where
  "joinWith sep [] = []"
| "joinWith sep [x] = x"
| "joinWith sep (x # y # zs) = x @ sep @ joinWith sep (y # zs)"

text \<open>Lines 199-203: the serialisation of a text node.\<close>

fun escapeHtml :: "string \<Rightarrow> string" where
  "escapeHtml [] = []"
| "escapeHtml (c # cs) =
     (if c = CHR ''&'' then ''&amp;'' @ escapeHtml cs
      else if c = CHR ''<'' then ''&lt;'' @ escapeHtml cs
      else if c = CHR ''>'' then ''&gt;'' @ escapeHtml cs
      else if c = CHR 0xC2 \<and> cs \<noteq> [] \<and> hd cs = CHR 0xA0 then ''&nbsp;'' @ escapeHtml (tl cs)
      else c # escapeHtml cs)"

text \<open>The two tests both renderers make per message (lines 1121-1123 and 1239-1240).\<close>

definition isSameUser :: "message_data \<Rightarrow> string \<Rightarrow> bool" where
  "isSameUser msg lastAuthor = (msg_username msg \<noteq> [] \<and> msg_username msg = lastAuthor)"

definition hasReply :: "message_data \<Rightarrow> bool" where
  "hasReply msg =
     (case msg_replyTo msg of
        None \<Rightarrow> False
      | Some r \<Rightarrow> rr_username r \<noteq> [] \<or> rr_content r \<noteq> [])"

definition showHeader :: "message_data \<Rightarrow> string \<Rightarrow> bool" where
  "showHeader msg lastAuthor = (\<not> isSameUser msg lastAuthor \<or> hasReply msg)"

subsection \<open>Markdown (lines 1232-1319)\<close>

text \<open>
  The document is built by appending text; each appended piece is kept with the kind of
  the statement that appends it, and the document is the concatenation of the pieces.
\<close>

datatype md_kind =
  MdReply | MdHeader | MdContent | MdImage | MdEmbed | MdAvatar | MdReactions | MdSeparator

type_synonym md_part = "md_kind \<times> string"

definition markdownImage :: "image_ref \<Rightarrow> md_part list" where
  "markdownImage imgData =
     (if ir_isGif imgData then
        [(MdImage, [CHR 0xF0, CHR 0x9F, CHR 0x8E, CHR 0xAC] @ '' **GIF**'' @ newline @ newline),
         (MdImage, ''[!['' @ [CHR 0x47, CHR 0x49, CHR 0x46, CHR 0xE9, CHR 0xA0, CHR 0x90, CHR 0xE8,
                             CHR 0xA6, CHR 0xBD]
                   @ '']('' @ ir_staticUrl imgData @ '')]('' @ ir_url imgData @ '')''
                   @ newline @ newline),
         (MdImage, ''> '' @ [CHR 0xE5, CHR 0x8E, CHR 0x9F, CHR 0xE5, CHR 0xA7, CHR 0x8B, CHR 0xE9,
                            CHR 0x80, CHR 0xA3, CHR 0xE7, CHR 0xB5, CHR 0x90]
                   @ '': '' @ ir_url imgData @ newline @ newline)]
      else [(MdImage, ''![image]('' @ ir_url imgData @ '')'' @ newline @ newline)])"

definition markdownEmbed :: "render_env \<Rightarrow> embed \<Rightarrow> md_part list" where
  "markdownEmbed R emb =
     [(MdEmbed, ''> '' @ [CHR 0xF0, CHR 0x9F, CHR 0x93, CHR 0x8E] @ '' **[Embed]**'' @ newline)]
     @ (if emb_author emb \<noteq> []
        then [(MdEmbed, ''> '' @ [CHR 0xF0, CHR 0x9F, CHR 0x91, CHR 0xA4] @ '' '' @ emb_author emb
                        @ newline)]
        else [])
     @ (if emb_title emb \<noteq> []
        then [(MdEmbed, ''> **'' @ emb_title emb @ ''**'' @ newline)] else [])
     @ (if emb_description emb \<noteq> []
        then [(MdEmbed, ''> '' @ textContentOf R (emb_description emb) @ newline)] else [])
     @ (if emb_fields emb \<noteq> []
        then (MdEmbed, ''>'' @ newline)
             # map (\<lambda>field. (MdEmbed, ''> '' @ [CHR 0xE2, CHR 0x80, CHR 0xA2] @ '' **''
                                      @ ef_name field @ ''**: ''
                                      @ textContentOf R (ef_value field) @ newline))
                 (emb_fields emb)
        else [])
     @ (if truthy (emb_thumbnail emb)
        then [(MdEmbed, ''>'' @ newline @ ''> ''
                        @ [CHR 0xF0, CHR 0x9F, CHR 0x96, CHR 0xBC, CHR 0xEF, CHR 0xB8, CHR 0x8F,
                           CHR 0x20, CHR 0xE7, CHR 0xB8, CHR 0xAE, CHR 0xE5, CHR 0x9C, CHR 0x96]
                        @ '': ![thumbnail]('' @ (case emb_thumbnail emb of Some u \<Rightarrow> u | None \<Rightarrow> [])
                        @ '')'' @ newline)]
        else [])
     @ (if truthy (emb_image emb)
        then [(MdEmbed, ''>'' @ newline @ ''> ![embed image](''
                        @ (case emb_image emb of Some u \<Rightarrow> u | None \<Rightarrow> []) @ '')'' @ newline)]
        else [])
     @ (if emb_footer emb \<noteq> []
        then [(MdEmbed, ''> _'' @ emb_footer emb @ ''_'' @ newline)] else [])
     @ [(MdEmbed, newline)]"

text \<open>Lines 1239-1315: what one message appends, given the author of the one before.\<close>

definition markdownMessage ::
  "render_env \<Rightarrow> export_options \<Rightarrow> string \<Rightarrow> message_data \<Rightarrow> md_part list" where
  "markdownMessage R options lastAuthor msg =
     (if hasReply msg
      then [(MdReply, ''> '' @ [CHR 0xE2, CHR 0x86, CHR 0xA9] @ '' Replying to **''
                      @ orUnknown (case msg_replyTo msg of Some r \<Rightarrow> rr_username r | None \<Rightarrow> [])
                      @ ''**: ''
                      @ (case msg_replyTo msg of Some r \<Rightarrow> rr_content r | None \<Rightarrow> [])
                      @ newline @ newline)]
      else [])
     @ (if \<not> isSameUser msg lastAuthor \<or> hasReply msg
        then [(MdHeader, ''**'' @ orUnknown (msg_username msg) @ ''**''
                         @ (if includeTimestamps options \<and> msg_timestamp msg \<noteq> []
                            then '' - '' @ toLocaleString R (msg_timestamp msg) else [])
                         @ newline @ newline)]
        else [])
     @ (if msg_contentText msg \<noteq> []
        then [(MdContent, msg_contentText msg @ newline @ newline)] else [])
     @ (if includeImages options \<and> msg_images msg \<noteq> []
        then concat (map markdownImage (msg_images msg)) else [])
     @ (if msg_embeds msg \<noteq> [] then concat (map (markdownEmbed R) (msg_embeds msg)) else [])
     @ (if \<not> isSameUser msg lastAuthor \<and> includeAvatars options \<and> msg_avatar msg \<noteq> []
        then [(MdAvatar, ''> Avatar: '' @ msg_avatar msg @ newline @ newline)] else [])
     @ (if includeReactions options \<and> msg_reactions msg \<noteq> []
        then [(MdReactions, ''> Reactions: ''
                            @ joinWith '' '' (map (\<lambda>r. re_emoji r @ '' ('' @ re_count r @ '')'')
                                                 (msg_reactions msg))
                            @ newline @ newline)]
        else [])
     @ [(MdSeparator, ''---'' @ newline @ newline)]"

text \<open>The \<^verbatim>\<open>forEach\<close> of line 1238: one block of pieces per message.\<close>

fun markdownBlocks ::
  "render_env \<Rightarrow> export_options \<Rightarrow> string \<Rightarrow> message_data list \<Rightarrow> md_part list list" where
  "markdownBlocks R options lastAuthor [] = []"
| "markdownBlocks R options lastAuthor (msg # rest) =
     markdownMessage R options lastAuthor msg # markdownBlocks R options (msg_username msg) rest"

definition markdownPreamble :: "render_env \<Rightarrow> string" where
  "markdownPreamble R =
     ''# '' @ getChannelName R @ newline @ newline @ ''*Exported on '' @ nowLocaleString R @ ''*''
     @ newline @ newline @ ''---'' @ newline @ newline"

definition generateMarkdownContent ::
  "render_env \<Rightarrow> message_data list \<Rightarrow> export_options \<Rightarrow> string" where
  "generateMarkdownContent R messages options =
     markdownPreamble R @ concat (map snd (concat (markdownBlocks R options [] messages)))"

subsection \<open>PDF (lines 1081-1228)\<close>

definition toUpperCase :: "string \<Rightarrow> string" where
  "toUpperCase s =
     map (\<lambda>c. if 97 \<le> (of_char c :: nat) \<and> (of_char c :: nat) \<le> 122
              then char_of ((of_char c :: nat) - 32) else c) s"

definition cacheGet :: "image_cache \<Rightarrow> string \<Rightarrow> string" where
  "cacheGet cache url = (case map_of cache url of Some base64 \<Rightarrow> base64 | None \<Rightarrow> [])"

definition avatarSpacer :: string where
  \<open>avatarSpacer = ''<div class="avatar-spacer"></div>''\<close>

definition avatarPlaceholder :: "message_data \<Rightarrow> string" where
  \<open>avatarPlaceholder msg =
     ''<div class="avatar-placeholder">''
     @ toUpperCase (take 1 (if msg_username msg \<noteq> [] then msg_username msg else ''U''))
     @ ''</div>''\<close>

definition pdfAvatarHtml :: "export_options \<Rightarrow> image_cache \<Rightarrow> string \<Rightarrow> message_data \<Rightarrow> string" where
  \<open>pdfAvatarHtml options cache lastAuthor msg =
     (if showHeader msg lastAuthor then
        (if includeAvatars options \<and> msg_avatar msg \<noteq> [] then
           (if cacheGet cache (msg_avatar msg) \<noteq> []
            then ''<img class="avatar" src="'' @ cacheGet cache (msg_avatar msg) @ ''" alt="avatar">''
            else avatarPlaceholder msg)
         else if includeAvatars options then avatarPlaceholder msg
         else [])
      else avatarSpacer)\<close>

definition pdfImageHtml :: "image_cache \<Rightarrow> image_ref \<Rightarrow> string" where
  \<open>pdfImageHtml cache imgData =
     (if cacheGet cache (ir_staticUrl imgData) \<noteq> [] then
        (if ir_isGif imgData
         then ''<div class="image-container gif-container"><img src="''
              @ cacheGet cache (ir_staticUrl imgData)
              @ ''" alt="GIF"><span class="gif-badge">GIF</span><a href="'' @ ir_url imgData
              @ ''" class="gif-link" target="_blank">'' @ ir_url imgData @ ''</a></div>''
         else ''<img src="'' @ cacheGet cache (ir_staticUrl imgData) @ ''" alt="image">'')
      else [])\<close>

definition pdfImagesHtml :: "export_options \<Rightarrow> image_cache \<Rightarrow> message_data \<Rightarrow> string" where
  \<open>pdfImagesHtml options cache msg =
     (if includeImages options \<and> msg_images msg \<noteq> []
      then ''<div class="images">'' @ concat (map (pdfImageHtml cache) (msg_images msg)) @ ''</div>''
      else [])\<close>

definition pdfFieldHtml :: "embed_field \<Rightarrow> string" where
  \<open>pdfFieldHtml f =
     ''<div class="embed-field">''
     @ (if ef_name f \<noteq> []
        then ''<div class="embed-field-name">'' @ escapeHtml (ef_name f) @ ''</div>'' else [])
     @ (if ef_value f \<noteq> []
        then ''<div class="embed-field-value">'' @ ef_value f @ ''</div>'' else [])
     @ ''</div>''\<close>

definition pdfEmbedHtml :: "image_cache \<Rightarrow> embed \<Rightarrow> string" where
  \<open>pdfEmbedHtml cache emb =
     ''<div class="embed" style="''
     @ (if emb_color emb \<noteq> [] then ''border-left-color: '' @ emb_color emb @ '';'' else [])
     @ ''">''
     @ (case emb_thumbnail emb of
          Some u \<Rightarrow>
            if u \<noteq> [] \<and> cacheGet cache u \<noteq> []
            then ''<img class="embed-thumbnail" src="'' @ cacheGet cache u @ ''" alt="thumbnail">''
            else []
        | None \<Rightarrow> [])
     @ (if emb_author emb \<noteq> []
        then ''<div class="embed-author">'' @ escapeHtml (emb_author emb) @ ''</div>'' else [])
     @ (if emb_title emb \<noteq> []
        then ''<div class="embed-title">'' @ escapeHtml (emb_title emb) @ ''</div>'' else [])
     @ (if emb_description emb \<noteq> []
        then ''<div class="embed-description">'' @ emb_description emb @ ''</div>'' else [])
     @ (if emb_fields emb \<noteq> []
        then ''<div class="embed-fields">'' @ concat (map pdfFieldHtml (emb_fields emb)) @ ''</div>''
        else [])
     @ (case emb_image emb of
          Some u \<Rightarrow>
            if u \<noteq> [] \<and> cacheGet cache u \<noteq> []
            then ''<img class="embed-image" src="'' @ cacheGet cache u @ ''" alt="embed image">''
            else []
        | None \<Rightarrow> [])
     @ (if emb_footer emb \<noteq> []
        then ''<div class="embed-footer">'' @ escapeHtml (emb_footer emb) @ ''</div>'' else [])
     @ ''</div>''\<close>

definition pdfReactionsHtml :: "export_options \<Rightarrow> message_data \<Rightarrow> string" where
  \<open>pdfReactionsHtml options msg =
     (if includeReactions options \<and> msg_reactions msg \<noteq> []
      then ''<div class="reactions">''
           @ concat (map (\<lambda>r. ''<span class="reaction">'' @ re_emoji r
                                @ ''<span class="reaction-count">'' @ re_count r @ ''</span></span>'')
                      (msg_reactions msg))
           @ ''</div>''
      else [])\<close>

definition pdfReplyHtml :: "message_data \<Rightarrow> string" where
  \<open>pdfReplyHtml msg =
     (if hasReply msg
      then ''<div class="reply-info"><span class="reply-username">''
           @ escapeHtml (orUnknown (case msg_replyTo msg of Some r \<Rightarrow> rr_username r | None \<Rightarrow> []))
           @ ''</span><span class="reply-content">''
           @ escapeHtml (case msg_replyTo msg of Some r \<Rightarrow> rr_content r | None \<Rightarrow> [])
           @ ''</span></div>''
      else [])\<close>

definition pdfHeaderHtml :: "render_env \<Rightarrow> export_options \<Rightarrow> string \<Rightarrow> message_data \<Rightarrow> string" where
  \<open>pdfHeaderHtml R options lastAuthor msg =
     (if showHeader msg lastAuthor
      then ''<div class="message-header"><span class="username" ''
           @ (if msg_usernameColor msg \<noteq> []
              then ''style="color: '' @ msg_usernameColor msg @ ''"'' else [])
           @ ''>'' @ escapeHtml (orUnknown (msg_username msg)) @ ''</span>''
           @ (if includeTimestamps options \<and> msg_timestamp msg \<noteq> []
              then ''<span class="timestamp">'' @ toLocaleString R (msg_timestamp msg) @ ''</span>''
              else [])
           @ ''</div>''
      else [])\<close>

text \<open>Lines 1120-1212: the HTML pushed for one message, given the author of the one before.\<close>

definition pdfMessage ::
  "render_env \<Rightarrow> export_options \<Rightarrow> image_cache \<Rightarrow> string \<Rightarrow> message_data \<Rightarrow> string" where
  \<open>pdfMessage R options cache lastAuthor msg =
     ''<div class="message">'' @ pdfAvatarHtml options cache lastAuthor msg
     @ ''<div class="message-body">'' @ pdfReplyHtml msg @ pdfHeaderHtml R options lastAuthor msg
     @ ''<div class="content">'' @ msg_content msg @ ''</div>''
     @ pdfImagesHtml options cache msg
     @ (if msg_embeds msg \<noteq> [] then concat (map (pdfEmbedHtml cache) (msg_embeds msg)) else [])
     @ pdfReactionsHtml options msg
     @ ''</div></div>''\<close>

text \<open>
  Lines 1086-1099: the URLs to prefetch, a \<^verbatim>\<open>Set\<close> in insertion order.
\<close>

definition setAdd :: "string list \<Rightarrow> string \<Rightarrow> string list" where
  "setAdd s x = (if x \<in> set s then s else s @ [x])"

definition collectImageUrls :: "message_data list \<Rightarrow> export_options \<Rightarrow> string list" where
  "collectImageUrls messages options =
     (let s1 = (if includeAvatars options
                then foldl (\<lambda>s msg. if msg_avatar msg \<noteq> [] then setAdd s (msg_avatar msg) else s)
                       [] messages
                else []);
          s2 = (if includeImages options
                then foldl (\<lambda>s msg.
                         foldl (\<lambda>s' img. if ir_staticUrl img \<noteq> [] then setAdd s' (ir_staticUrl img) else s')
                           s (msg_images msg))
                       s1 messages
                else s1)
      in foldl (\<lambda>s msg.
           foldl (\<lambda>s' e.
                (let s'' = (case emb_thumbnail e of
                              Some u \<Rightarrow> if u \<noteq> [] then setAdd s' u else s' | None \<Rightarrow> s')
                 in case emb_image e of
                      Some u \<Rightarrow> if u \<noteq> [] then setAdd s'' u else s'' | None \<Rightarrow> s''))
             s (msg_embeds msg))
           s2 messages)"

definition PREFETCH_BATCH :: nat where
  "PREFETCH_BATCH = 10"

definition BATCH_SIZE :: nat where
  "BATCH_SIZE = 50"

text \<open>
  Lines 1104-1112, the prefetch loop from index \<open>i\<close>. The fetches of one batch run
  concurrently in the source; each stores its image in one uninterrupted step when it
  completes, and here they complete in the order of the batch.
\<close>

function prefetchLoop ::
  "(string \<Rightarrow> js_error + string) \<Rightarrow> string list \<Rightarrow> nat \<Rightarrow> image_cache \<times> real list
     \<Rightarrow> image_cache \<times> real list" where
  "prefetchLoop net urlArray i acc =
     (if i < length urlArray then
        prefetchLoop net urlArray (i + PREFETCH_BATCH)
          (resolveAll (map (\<lambda>url. (net, Some url)) (take PREFETCH_BATCH (drop i urlArray))) (fst acc),
           snd acc @ [50 + real_of_int \<lfloor>(real i / real (length urlArray)) * 30\<rfloor>])
      else acc)"
  by pat_completeness auto
termination
  by (relation "measure (\<lambda>(net, urlArray, i, acc). length urlArray - i)")
     (auto simp: PREFETCH_BATCH_def)

declare prefetchLoop.simps [simp del]

text \<open>
  Lines 1119-1223, the render loop from message \<open>i\<close>: the HTML parts and the percents sent,
  both oldest first.
\<close>

fun renderLoop ::
  "render_env \<Rightarrow> export_options \<Rightarrow> image_cache \<Rightarrow> nat \<Rightarrow> nat \<Rightarrow> string \<Rightarrow> message_data list
     \<Rightarrow> string list \<times> real list" where
  "renderLoop R options cache totalMessages i lastAuthor [] = ([], [])"
| "renderLoop R options cache totalMessages i lastAuthor (msg # rest) =
     (let (parts, sent) = renderLoop R options cache totalMessages (Suc i) (msg_username msg) rest
      in (pdfMessage R options cache lastAuthor msg # parts,
          (if i > 0 \<and> i mod BATCH_SIZE = 0
           then [80 + real_of_int \<lfloor>(real i / real totalMessages) * 20\<rfloor>] else [])
          @ sent))"

record pdf_output =
  pdf_html :: string
  pdf_sent :: "real list"
  pdf_imageCache :: image_cache

definition generatePDFContent ::
  "render_env \<Rightarrow> (string \<Rightarrow> js_error + string) \<Rightarrow> message_data list \<Rightarrow> export_options
     \<Rightarrow> image_cache \<Rightarrow> real list \<Rightarrow> pdf_output" where
  \<open>generatePDFContent R net messages options imageCache sent =
     (let cache0 = clearImageCache imageCache;
          head = ''<!DOCTYPE html><html><head><meta charset="UTF-8"><style>'' @ getPDFStyles R
                 @ ''</style></head><body><h1>'' @ escapeHtml (getChannelName R) @ ''</h1>'';
          urlArray = collectImageUrls messages options;
          (cache1, sent1) = prefetchLoop net urlArray 0 (cache0, sent);
          (parts, sent2) = renderLoop R options cache1 (length messages) 0 [] messages
      in \<lparr>pdf_html = concat (head # parts @ [''</body></html>'']),
          pdf_sent = sent1 @ sent2,
          pdf_imageCache = clearImageCache cache1\<rparr>)\<close>

section \<open>Export entry points (content.js, lines 1335-1398)\<close>

text \<open>
  The returned object is \<^verbatim>\<open>{success: true, messageCount}\<close> or \<^verbatim>\<open>{success: false, error}\<close>.
  An outcome holds it together with the percents sent to the progress sink and the
  document handed over, if any.
\<close>

datatype export_result = Success nat | Failure string

record export_outcome =
  eo_result :: export_result
  eo_sent :: "real list"
  eo_document :: "string option"

definition exportToPDF ::
  "helpers \<Rightarrow> render_env \<Rightarrow> environment \<Rightarrow> string option \<Rightarrow> string option \<Rightarrow> partial_options
     \<Rightarrow> export_outcome" where
  "exportToPDF H R env selectedMessageId selectedEndMessageId options =
     (let exportOptions = mergeOptions DEFAULT_EXPORT_OPTIONS options
      in case scrollAndCollectMessages H env selectedMessageId selectedEndMessageId exportOptions [10] of
           (sent1, Inl error) \<Rightarrow>
             \<lparr>eo_result = Failure (message error), eo_sent = sent1, eo_document = None\<rparr>
         | (sent1, Inr messages) \<Rightarrow>
             if length messages = 0
             then \<lparr>eo_result = Failure ''No messages found to export'', eo_sent = sent1,
                   eo_document = None\<rparr>
             else
               (let out = generatePDFContent R (env_network env) messages exportOptions []
                            (sent1 @ [60])
                in if env_windowOpen env
                   then \<lparr>eo_result = Success (length messages), eo_sent = pdf_sent out @ [90],
                         eo_document = Some (pdf_html out)\<rparr>
                   else \<lparr>eo_result = Failure ''Cannot read properties of null (reading 'document')'',
                         eo_sent = pdf_sent out @ [90], eo_document = None\<rparr>))"

definition exportToMarkdown ::
  "helpers \<Rightarrow> render_env \<Rightarrow> environment \<Rightarrow> string option \<Rightarrow> string option \<Rightarrow> partial_options
     \<Rightarrow> export_outcome" where
  "exportToMarkdown H R env selectedMessageId selectedEndMessageId options =
     (let exportOptions = mergeOptions DEFAULT_EXPORT_OPTIONS options
      in case scrollAndCollectMessages H env selectedMessageId selectedEndMessageId exportOptions [10] of
           (sent1, Inl error) \<Rightarrow>
             \<lparr>eo_result = Failure (message error), eo_sent = sent1, eo_document = None\<rparr>
         | (sent1, Inr messages) \<Rightarrow>
             if length messages = 0
             then \<lparr>eo_result = Failure ''No messages found to export'', eo_sent = sent1,
                   eo_document = None\<rparr>
             else \<lparr>eo_result = Success (length messages), eo_sent = sent1 @ [70, 90],
                   eo_document = Some (generateMarkdownContent R messages exportOptions)\<rparr>)"

section \<open>Counting the pieces of a Markdown document\<close>



section \<open>Windows of the message list\<close>

text \<open>
  The setting in which a range between two boundaries is exported. The channel is a list
  of distinct message ids. Iteration \<open>j\<close> of the loop finds the messages at the positions
  \<open>lo j\<close> up to \<open>lo j + len j\<close> mounted, in list order. The windows leave no gap: each
  starts no later than the one before ended; a window that reaches back before the start
  message contains it, and the first one does; before the window of iteration \<open>m\<close>, the
  first to contain the end message, the scroll position moves at every step, so the stall
  counter does not stop the loop.
\<close>





section \<open>Sample inputs\<close>



text \<open>Helpers that leave their argument as it is, and small elements.\<close>

definition sampleHelpers :: helpers where
  "sampleHelpers =
     \<lparr>processContentForEmoji = (\<lambda>html. html),
      getFullResolutionImageUrl = (\<lambda>img. if img_src img = [] then None else Some (img_src img)),
      getStaticImageUrl = (\<lambda>url. url)\<rparr>"

definition emptyView :: message_view where
  "emptyView =
     \<lparr>mv_headerUsername = None, mv_usernameEls = [], mv_headerTextUsernameEls = [],
      mv_avatarEls = [], mv_avatarWrappers = []\<rparr>"

definition bareElement :: "string \<Rightarrow> element" where
  "bareElement i =
     \<lparr>el_id = i, el_view = emptyView, el_prevSiblings = [], el_imgs = [],
      el_repliedMessage = None, el_timeEl = None, el_contentEls = [], el_imageEls = [],
      el_embedWrappers = [], el_reactionsEl = None\<rparr>"

definition textElement :: "string \<Rightarrow> string \<Rightarrow> string \<Rightarrow> element" where
  "textElement i author txt =
     (bareElement i)
       \<lparr>el_view := emptyView
          \<lparr>mv_headerUsername :=
             Some \<lparr>un_textContent = author, un_color = ''rgb(88, 101, 242)'',
                   un_inRepliedMessage = False, un_inReplyBar = False\<rparr>\<rparr>,
        el_contentEls :=
          [\<lparr>cn_inRepliedMessage = False, cn_inRepliedTextContent = False,
            cn_inReplyBar = False, cn_innerHTML = txt, cn_textContent = txt\<rparr>]\<rparr>"

definition stillReading :: scroll_reading where
  "stillReading = \<lparr>scrollTop = 1000, clientHeight = 800, scrollHeight = 1800\<rparr>"

definition sampleFrame :: "element list \<Rightarrow> frame" where
  "sampleFrame els =
     \<lparr>fr_messageArray = els, fr_beforeScroll = stillReading, fr_afterScroll = stillReading\<rparr>"

definition sampleEnv :: "(nat \<Rightarrow> frame) \<Rightarrow> environment" where
  "sampleEnv frames =
     \<lparr>env_scroller = True, env_initialScrollTop = 0,
      env_topReadings = (\<lambda>n. \<lparr>tr_afterReset = 0, tr_afterRecheck = 0\<rparr>),
      env_initialDocument = [], env_scrollTopAtStart = 0, env_frames = frames,
      env_finalDocument = [],
      env_network = (\<lambda>url. Inl (Error ''Failed to fetch'')),
      env_windowOpen = True\<rparr>"







definition sampleRender :: render_env where
  "sampleRender =
     \<lparr>getChannelName = ''general'', getPDFStyles = [], nowLocaleString = ''1/1/2026, 12:00:00 AM'',
      toLocaleString = (\<lambda>t. t), textContentOf = (\<lambda>html. html)\<rparr>"

definition noOptions :: partial_options where
  "noOptions =
     \<lparr>po_includeImages = None, po_includeAvatars = None, po_includeTimestamps = None,
      po_includeReactions = None\<rparr>"




section \<open>Properties of the image cache\<close>


















text \<open>
  C10. The resolver returns \<^verbatim>\<open>null\<close> for an absent or empty URL and for a URL whose fetch or
  decoding is rejected, and it never throws: the rejection is caught, so the model's result
  is always a value. Whenever the result is \<^verbatim>\<open>null\<close> the cache is exactly the cache before
  the call: nothing was inserted and nothing evicted.
\<close>

theorem getCachedImage_failure_keeps_cache:
  "getCachedImage net None cache = (None, cache)
   \<and> getCachedImage net (Some []) cache = (None, cache)
   \<and> (\<not> map_has cache u \<and> net u = Inl err \<longrightarrow> getCachedImage net (Some u) cache = (None, cache))
   \<and> (fst (getCachedImage net url cache) = None \<longrightarrow> snd (getCachedImage net url cache) = cache)"
  by (auto simp: getCachedImage_def getCachedImage_try_def map_has_def
      split: option.splits sum.splits)

theorem getCachedImage_failure_keeps_cache_witness:
  "getCachedImage (\<lambda>u. Inl (Error ''Failed to fetch'')) (Some ''https://cdn.discordapp.com/a.png'')
       [(''k'', ''data:,'')]
     = (None, [(''k'', ''data:,'')])"
  using getCachedImage_failure_keeps_cache
    [of "\<lambda>u. Inl (Error ''Failed to fetch'')" "[(''k'', ''data:,'')]"
        "''https://cdn.discordapp.com/a.png''" "Error ''Failed to fetch''"]
  by (simp add: map_has_def)

section \<open>Properties of the extractor\<close>

























section \<open>Properties of the collection loop\<close>









lemma collectMessage_flags:
  "foundStartMessage (collectMessage H options el k st) = foundStartMessage st"
  "foundEndMessage (collectMessage H options el k st) = foundEndMessage st"
  "reachedBottom (collectMessage H options el k st) = reachedBottom st"
  "noChangeCount (collectMessage H options el k st) = noChangeCount st"
  "progressLog (collectMessage H options el k st) = progressLog st"
  "maxScrollTopReached (collectMessage H options el k st) = maxScrollTopReached st"
  by (simp_all add: collectMessage_def split: prod.splits option.splits)



























section \<open>The drop rule in the output\<close>




section \<open>Properties of the renderers\<close>










lemma markdownBlocks_length: "length (markdownBlocks R options lastAuthor ms) = length ms"
  by (induction ms arbitrary: lastAuthor) simp_all


lemma renderLoop_length:
  "length (fst (renderLoop R options cache tot k lastAuthor ms)) = length ms"
  by (induction ms arbitrary: k lastAuthor) (simp_all add: split_beta)










section \<open>Properties of the export entry points\<close>

lemma scrollAndCollectMessages_no_scroller:
  "\<not> env_scroller env \<Longrightarrow>
     scrollAndCollectMessages H env sid eid options sent
       = (sent, Inl (Error ''Could not find messages scroller''))"
  by (simp add: scrollAndCollectMessages_def)

lemma scrollAndCollectMessages_scroller:
  "env_scroller env \<Longrightarrow>
     scrollAndCollectMessages H env sid eid options sent
       = (progressLog (collectRun H env sid eid options sent),
          Inr (collectedValues (collectRun H env sid eid options sent)))"
  by (simp add: scrollAndCollectMessages_def Let_def)

lemma exportToPDF_result:
  "eo_result (exportToPDF H R env sid eid options) =
     (if \<not> env_scroller env then Failure ''Could not find messages scroller''
      else if collectedValues (collectRun H env sid eid (mergeOptions DEFAULT_EXPORT_OPTIONS options) [10]) = []
      then Failure ''No messages found to export''
      else if env_windowOpen env
      then Success (length (collectedValues
             (collectRun H env sid eid (mergeOptions DEFAULT_EXPORT_OPTIONS options) [10])))
      else Failure ''Cannot read properties of null (reading 'document')'')"
  by (cases "env_scroller env")
     (simp_all add: exportToPDF_def Let_def scrollAndCollectMessages_no_scroller
        scrollAndCollectMessages_scroller)

lemma exportToMarkdown_result:
  "eo_result (exportToMarkdown H R env sid eid options) =
     (if \<not> env_scroller env then Failure ''Could not find messages scroller''
      else if collectedValues (collectRun H env sid eid (mergeOptions DEFAULT_EXPORT_OPTIONS options) [10]) = []
      then Failure ''No messages found to export''
      else Success (length (collectedValues
             (collectRun H env sid eid (mergeOptions DEFAULT_EXPORT_OPTIONS options) [10]))))"
  by (cases "env_scroller env")
     (simp_all add: exportToMarkdown_def Let_def scrollAndCollectMessages_no_scroller
        scrollAndCollectMessages_scroller)

text \<open>
  C8. Both entry points return an object in every case; no error leaves them, the errors
  thrown inside are caught and become \<^verbatim>\<open>{success: false, error}\<close> with the message of the
  error. Without a scroller the error is that of \<^verbatim>\<open>scrollAndCollectMessages\<close>; with no
  message collected it is the error thrown for the empty result. A success carries the
  number of collected messages, which is then positive, and a non-empty collection always
  succeeds for Markdown, and for PDF when the print window opens.
\<close>

theorem export_results_structured:
  "(\<not> env_scroller env \<longrightarrow>
       eo_result (exportToPDF H R env sid eid options) = Failure ''Could not find messages scroller''
     \<and> eo_result (exportToMarkdown H R env sid eid options)
         = Failure ''Could not find messages scroller'')
   \<and> (env_scroller env
        \<and> collectedValues (collectRun H env sid eid (mergeOptions DEFAULT_EXPORT_OPTIONS options) [10]) = []
      \<longrightarrow> eo_result (exportToPDF H R env sid eid options) = Failure ''No messages found to export''
        \<and> eo_result (exportToMarkdown H R env sid eid options) = Failure ''No messages found to export'')
   \<and> (\<forall>n. eo_result (exportToPDF H R env sid eid options) = Success n \<longrightarrow>
         env_scroller env \<and> 0 < n
         \<and> n = length (collectedValues
                  (collectRun H env sid eid (mergeOptions DEFAULT_EXPORT_OPTIONS options) [10])))
   \<and> (\<forall>n. eo_result (exportToMarkdown H R env sid eid options) = Success n \<longrightarrow>
         env_scroller env \<and> 0 < n
         \<and> n = length (collectedValues
                  (collectRun H env sid eid (mergeOptions DEFAULT_EXPORT_OPTIONS options) [10])))
   \<and> (env_scroller env
        \<and> collectedValues (collectRun H env sid eid (mergeOptions DEFAULT_EXPORT_OPTIONS options) [10]) \<noteq> []
      \<longrightarrow> eo_result (exportToMarkdown H R env sid eid options)
            = Success (length (collectedValues
                (collectRun H env sid eid (mergeOptions DEFAULT_EXPORT_OPTIONS options) [10])))
        \<and> (env_windowOpen env \<longrightarrow>
             eo_result (exportToPDF H R env sid eid options)
               = Success (length (collectedValues
                   (collectRun H env sid eid (mergeOptions DEFAULT_EXPORT_OPTIONS options) [10])))))"
  unfolding exportToPDF_result exportToMarkdown_result
  by (auto split: if_splits)

lemma sampleEnv_fields:
  "env_scroller (sampleEnv frames)" "env_windowOpen (sampleEnv frames)"
  by (simp_all add: sampleEnv_def)

lemma sample_run_one_message:
  "map msg_id (collectedValues (collectRun sampleHelpers
       (sampleEnv (\<lambda>n. sampleFrame [textElement ''chat-messages-1'' ''alice'' ''hello'']))
       None None (mergeOptions DEFAULT_EXPORT_OPTIONS noOptions) [10]))
     = [Some ''chat-messages-1'']"
  by code_simp

lemma sample_run_no_message:
  "collectedValues (collectRun sampleHelpers (sampleEnv (\<lambda>n. sampleFrame []))
       None None (mergeOptions DEFAULT_EXPORT_OPTIONS noOptions) [10]) = []"
  by code_simp

theorem export_results_structured_witness:
  "eo_result (exportToPDF sampleHelpers sampleRender
       ((sampleEnv (\<lambda>n. sampleFrame []))\<lparr>env_scroller := False\<rparr>) None None noOptions)
     = Failure ''Could not find messages scroller''
   \<and> eo_result (exportToMarkdown sampleHelpers sampleRender (sampleEnv (\<lambda>n. sampleFrame []))
       None None noOptions)
     = Failure ''No messages found to export''
   \<and> eo_result (exportToPDF sampleHelpers sampleRender
       (sampleEnv (\<lambda>n. sampleFrame [textElement ''chat-messages-1'' ''alice'' ''hello'']))
       None None noOptions)
     = Success 1"
proof -
  note t = export_results_structured
    [where H = sampleHelpers and R = sampleRender and sid = None and eid = None and options = noOptions]
  have a: "eo_result (exportToPDF sampleHelpers sampleRender
       ((sampleEnv (\<lambda>n. sampleFrame []))\<lparr>env_scroller := False\<rparr>) None None noOptions)
     = Failure ''Could not find messages scroller''"
    using t [where env = "(sampleEnv (\<lambda>n. sampleFrame []))\<lparr>env_scroller := False\<rparr>"]
    by simp
  have b: "eo_result (exportToMarkdown sampleHelpers sampleRender (sampleEnv (\<lambda>n. sampleFrame []))
       None None noOptions)
     = Failure ''No messages found to export''"
    using t [where env = "sampleEnv (\<lambda>n. sampleFrame [])"] sample_run_no_message
    by (simp add: sampleEnv_fields)
  have "length (map msg_id (collectedValues (collectRun sampleHelpers
       (sampleEnv (\<lambda>n. sampleFrame [textElement ''chat-messages-1'' ''alice'' ''hello'']))
       None None (mergeOptions DEFAULT_EXPORT_OPTIONS noOptions) [10]))) = 1"
    unfolding sample_run_one_message by simp
  then have one: "length (collectedValues (collectRun sampleHelpers
       (sampleEnv (\<lambda>n. sampleFrame [textElement ''chat-messages-1'' ''alice'' ''hello'']))
       None None (mergeOptions DEFAULT_EXPORT_OPTIONS noOptions) [10])) = 1"
    by simp
  then have ne: "collectedValues (collectRun sampleHelpers
       (sampleEnv (\<lambda>n. sampleFrame [textElement ''chat-messages-1'' ''alice'' ''hello'']))
       None None (mergeOptions DEFAULT_EXPORT_OPTIONS noOptions) [10]) \<noteq> []"
    by auto
  have "eo_result (exportToPDF sampleHelpers sampleRender
       (sampleEnv (\<lambda>n. sampleFrame [textElement ''chat-messages-1'' ''alice'' ''hello'']))
       None None noOptions)
     = Success (length (collectedValues (collectRun sampleHelpers
       (sampleEnv (\<lambda>n. sampleFrame [textElement ''chat-messages-1'' ''alice'' ''hello'']))
       None None (mergeOptions DEFAULT_EXPORT_OPTIONS noOptions) [10])))"
    using t [where env = "sampleEnv (\<lambda>n. sampleFrame [textElement ''chat-messages-1'' ''alice'' ''hello''])"]
      ne sampleEnv_fields
    by blast
  then have c: "eo_result (exportToPDF sampleHelpers sampleRender
       (sampleEnv (\<lambda>n. sampleFrame [textElement ''chat-messages-1'' ''alice'' ''hello'']))
       None None noOptions)
     = Success 1"
    by (simp only: one)
  from a b c show ?thesis by simp
qed

section \<open>The percents sent to the progress sink\<close>

lemma scanMessages_progressLog:
  "progressLog (scanMessages H options startFromId endAtId startElement endElement i els st)
     = progressLog st"
proof (induction els arbitrary: i st)
  case Nil
  show ?case by simp
next
  case (Cons msgEl rest)
  show ?case
    by (cases "getMessageId (Some msgEl)") (simp_all add: Cons.IH collectMessage_flags)
qed

lemma afterScroll_progressLog: "progressLog (snd (afterScroll fr st)) = progressLog st"
  by (simp add: afterScroll_def Let_def)

lemma collectLoop_progressLog:
  "prefix (progressLog st) (progressLog (snd (collectLoop H options startFromId endAtId frames n st)))"
proof (induction H options startFromId endAtId frames n st rule: collectLoop.induct)
  case (1 H options startFromId endAtId frames n st)
  let ?st1 = "scanFrame H options startFromId endAtId (frames (Suc n)) st"
  let ?st2 = "snd (afterScroll (frames (Suc n)) ?st1)"
  let ?st3 = "?st2\<lparr>progressLog := progressLog ?st2 @ [collectionProgress (Suc n)]\<rparr>"
  have p1: "progressLog ?st1 = progressLog st"
    by (simp add: scanFrame_def scanMessages_progressLog)
  have p2: "progressLog ?st2 = progressLog st"
    by (simp add: afterScroll_progressLog p1)
  show ?case
  proof (cases "n < maxScrollAttempts \<and> \<not> reachedBottom st")
    case False
    then show ?thesis by (subst collectLoop.simps) auto
  next
    case enter: True
    show ?thesis
    proof (cases "foundEndMessage ?st1 \<or> fst (afterScroll (frames (Suc n)) ?st1)")
      case True
      with enter p1 p2 show ?thesis
        by (subst collectLoop.simps) (auto simp: Let_def)
    next
      case False
      then have "prefix (progressLog ?st3)
          (progressLog (snd (collectLoop H options startFromId endAtId frames (Suc n) ?st3)))"
        using "1.IH" [OF enter refl] by simp
      moreover have "prefix (progressLog st) (progressLog ?st3)"
        by (simp add: p2)
      ultimately have "prefix (progressLog st)
          (progressLog (snd (collectLoop H options startFromId endAtId frames (Suc n) ?st3)))"
        by (rule prefix_order.trans [rotated])
      with enter False show ?thesis
        by (subst collectLoop.simps) (auto simp: Let_def)
    qed
  qed
qed

lemma fallbackSweep_progressLog:
  "progressLog (fallbackSweep H options doc st) = progressLog st"
proof (induction doc arbitrary: st)
  case Nil
  show ?case by simp
next
  case (Cons msgEl rest)
  show ?case
    by (cases "getMessageId (Some msgEl)") (simp_all add: Cons.IH collectMessage_flags)
qed

lemma scrollToTop_prefix: "prefix sent (scrollToTop readings k lastTop sent)"
proof (induction readings k lastTop sent rule: scrollToTop.induct)
  case (1 readings k lastTop sent)
  show ?case
  proof (cases "k < maxScrollAttempts \<and> \<not> ((tr_afterReset (readings k) = 0
               \<or> \<bar>tr_afterReset (readings k) - lastTop\<bar> < 5)
            \<and> tr_afterRecheck (readings k) < 100)")
    case False
    then show ?thesis by (subst scrollToTop.simps) auto
  next
    case True
    then have "prefix (sent @ [min 15 (5 + real (Suc k))])
        (scrollToTop readings (Suc k)
           (if tr_afterReset (readings k) = 0 \<or> \<bar>tr_afterReset (readings k) - lastTop\<bar> < 5
            then tr_afterRecheck (readings k) else tr_afterReset (readings k))
           (sent @ [min 15 (5 + real (Suc k))]))"
      using "1.IH" by blast
    then have "prefix sent
        (scrollToTop readings (Suc k)
           (if tr_afterReset (readings k) = 0 \<or> \<bar>tr_afterReset (readings k) - lastTop\<bar> < 5
            then tr_afterRecheck (readings k) else tr_afterReset (readings k))
           (sent @ [min 15 (5 + real (Suc k))]))"
      using prefix_order.trans [of sent "sent @ [min 15 (5 + real (Suc k))]"] by simp
    with True show ?thesis by (subst scrollToTop.simps) auto
  qed
qed

lemma collectRun_progressLog_from_top:
  assumes "\<not> truthy startFromId"
  shows "prefix (sent @ [5]) (progressLog (collectRun H env startFromId endAtId options sent))"
proof -
  let ?st0 = "seekStart env startFromId sent"
  let ?st1 = "snd (collectLoop H options startFromId endAtId (env_frames env) 0 ?st0)"
  have "prefix (sent @ [5]) (progressLog ?st0)"
    using assms by (simp add: seekStart_def scrollToTop_prefix)
  moreover have "prefix (progressLog ?st0) (progressLog ?st1)"
    by (rule collectLoop_progressLog)
  ultimately have "prefix (sent @ [5]) (progressLog ?st1)"
    by (rule prefix_order.trans)
  then show ?thesis
    by (simp add: collectRun_def Let_def fallbackSweep_progressLog)
qed

lemma prefetchLoop_prefix: "prefix (snd acc) (snd (prefetchLoop net urlArray i acc))"
proof (induction net urlArray i acc rule: prefetchLoop.induct)
  case (1 net urlArray i acc)
  show ?case
  proof (cases "i < length urlArray")
    case False
    then show ?thesis by (subst prefetchLoop.simps) simp
  next
    case True
    let ?acc = "(resolveAll (map (\<lambda>url. (net, Some url)) (take PREFETCH_BATCH (drop i urlArray))) (fst acc),
           snd acc @ [50 + real_of_int \<lfloor>(real i / real (length urlArray)) * 30\<rfloor>])"
    have "prefix (snd ?acc) (snd (prefetchLoop net urlArray (i + PREFETCH_BATCH) ?acc))"
      using "1.IH" [OF True] .
    then have "prefix (snd acc) (snd (prefetchLoop net urlArray (i + PREFETCH_BATCH) ?acc))"
      using prefix_order.trans [of "snd acc" "snd ?acc"] by simp
    with True show ?thesis by (subst prefetchLoop.simps) simp
  qed
qed

lemma generatePDFContent_prefix:
  "prefix sent (pdf_sent (generatePDFContent R net messages options cache sent))"
proof -
  have "prefix (snd (clearImageCache cache, sent))
      (snd (prefetchLoop net (collectImageUrls messages options) 0 (clearImageCache cache, sent)))"
    by (rule prefetchLoop_prefix)
  then show ?thesis
    by (auto simp: generatePDFContent_def Let_def split_beta prefix_def)
qed

lemma exportToPDF_sent_from_top:
  assumes "env_scroller env" and "\<not> truthy sid"
  shows "prefix [10, 5] (eo_sent (exportToPDF H R env sid eid options))"
proof -
  let ?o = "mergeOptions DEFAULT_EXPORT_OPTIONS options"
  let ?run = "collectRun H env sid eid ?o [10]"
  have p: "prefix [10, 5] (progressLog ?run)"
    using collectRun_progressLog_from_top [OF assms(2), of "[10]" H env eid ?o] by simp
  have q: "prefix (progressLog ?run @ [60])
      (pdf_sent (generatePDFContent R (env_network env) (collectedValues ?run) ?o []
         (progressLog ?run @ [60])))"
    by (rule generatePDFContent_prefix)
  have r: "prefix [10, 5]
      (pdf_sent (generatePDFContent R (env_network env) (collectedValues ?run) ?o []
         (progressLog ?run @ [60])) @ [90])"
    using p q by (auto simp: prefix_def)
  show ?thesis
    using assms(1) p r
    by (simp add: exportToPDF_def Let_def scrollAndCollectMessages_scroller)
qed

text \<open>
  C9 at a failing input: an export to PDF of a page that has a scroller, with no start
  message selected. The first two percents sent are 10 and then 5, so the sequence is not
  non-decreasing.
\<close>

theorem progress_not_monotone:
  "take 2 (eo_sent (exportToPDF sampleHelpers sampleRender
       (sampleEnv (\<lambda>n. sampleFrame [textElement ''chat-messages-1'' ''alice'' ''hello'']))
       None None noOptions)) = [10, 5]
   \<and> \<not> sorted (eo_sent (exportToPDF sampleHelpers sampleRender
       (sampleEnv (\<lambda>n. sampleFrame [textElement ''chat-messages-1'' ''alice'' ''hello'']))
       None None noOptions))"
proof -
  let ?sent = "eo_sent (exportToPDF sampleHelpers sampleRender
       (sampleEnv (\<lambda>n. sampleFrame [textElement ''chat-messages-1'' ''alice'' ''hello'']))
       None None noOptions)"
  have "prefix [10, 5] ?sent"
    by (rule exportToPDF_sent_from_top) (simp_all add: sampleEnv_fields truthy_def)
  then obtain rest where "?sent = [10, 5] @ rest"
    by (auto simp: prefix_def)
  then show ?thesis by simp
qed

section \<open>Boundaries of the exported range\<close>
























end
